theory Spec2Isabelle
  imports Complex_Main "HOL-Library.Word" "HOL-Library.Multiset"
begin

unbundle bit_operations_syntax

section \<open>Hash generators of \<^verbatim>\<open>d3l/indexing/hashing/hash_generators.py\<close>\<close>

text \<open>
  The module defines two generators of hash signatures, \<^verbatim>\<open>MinHashHashGenerator\<close> and
  \<^verbatim>\<open>RandomProjectionsHashGenerator\<close>, over a common base class. NumPy arrays of dtype
  \<^verbatim>\<open>uint64\<close> are lists of 64-bit words, whose arithmetic wraps around as NumPy's does;
  Python integers are \<open>int\<close>. Every \<^verbatim>\<open>raise\<close> of the module, and every exception the
  NumPy and SciPy calls raise on the paths modelled, is a value of \<open>error\<close>.
\<close>

subsection \<open>Constants and errors\<close>

type_synonym u64 = "64 word"
type_synonym u32 = "32 word"

definition MERSENNE_PRIME :: int where
  "MERSENNE_PRIME = 2 ^ 61 - 1"

definition MAX_HASH :: int where
  "MAX_HASH = 2 ^ 32 - 1"

definition HASH_RANGE :: int where
  "HASH_RANGE = 2 ^ 32"

text \<open>
  \<open>LengthMismatch\<close> and \<open>InvalidShape\<close> are the two \<^verbatim>\<open>ValueError\<close>s the module raises
  itself (in \<^verbatim>\<open>similarity_score\<close> and in \<^verbatim>\<open>set_hash_permutations\<close>). The others come
  from Python and the libraries: \<open>IndexError\<close> from reading \<^verbatim>\<open>shape[k]\<close> of an array with
  fewer than \<open>k + 1\<close> dimensions, \<open>NotIterable\<close> and \<open>UnpackError\<close> from
  \<^verbatim>\<open>perm_left, perm_right = ...\<close> on an array of no dimension and on one whose first axis
  has not length 2, \<open>BroadcastError\<close> from an element-wise
  operation on arrays whose shapes do not broadcast, \<open>DimensionMismatch\<close> from a
  matrix product of incompatible shapes, \<open>AmbiguousTruth\<close> from the truth value of an
  array with more than one element, \<open>OverflowError\<close> from converting a Python integer
  that does not fit the target type. \<open>UnsupportedRank\<close> is not an exception: it marks the
  one computation this development does not describe, a token hashed against
  permutations that are not a two-dimensional array (NumPy broadcasts there, and the
  result has as many dimensions as the rows, which the list of a signature cannot
  hold). No generator with permutations of shape \<open>(2, hash_size)\<close> reaches it.
\<close>

datatype error =
    LengthMismatch
  | InvalidShape
  | IndexError
  | NotIterable
  | UnpackError
  | BroadcastError
  | DimensionMismatch
  | AmbiguousTruth
  | OverflowError
  | UnsupportedRank

subsection \<open>Arrays\<close>

text \<open>
  An \<^verbatim>\<open>ndarray\<close> is its shape and its elements in row-major order. One-dimensional
  arrays (signatures, the two rows of the permutations) are plain lists.
\<close>

record 'a ndarray =
  shape :: "nat list"
  data :: "'a list"

text \<open>
  An array of integers handed to the module has a dtype as well. Of a fixed-width
  integer dtype (\<^verbatim>\<open>int64\<close>, \<^verbatim>\<open>uint64\<close> and the narrower ones) the elements are given by
  their values; of dtype \<^verbatim>\<open>object\<close> they are Python integers of any size. Arrays of
  other dtypes are not modelled.
\<close>

datatype dtype = integer_dtype | object_dtype

record 'a typed_ndarray = "'a ndarray" +
  dtype :: dtype

text \<open>
  \<^verbatim>\<open>np.array(a, dtype=np.uint64)\<close>. A fixed-width integer is cast, which keeps its value
  modulo \<open>2 ^ 64\<close>. A Python integer is converted, which raises \<open>OverflowError\<close> when it
  does not fit (for a negative one as NumPy 2 does; NumPy 1 wrapped those).
\<close>

definition fits_uint64 :: "int \<Rightarrow> bool" where
  "fits_uint64 v \<longleftrightarrow> 0 \<le> v \<and> v < 2 ^ 64"

definition np_array_uint64 :: "int typed_ndarray \<Rightarrow> error + u64 ndarray" where
  "np_array_uint64 a =
     (if dtype a = object_dtype \<and> \<not> list_all fits_uint64 (data a) then Inl OverflowError
      else Inr \<lparr>shape = shape a, data = map word_of_int (data a)\<rparr>)"

text \<open>
  \<^verbatim>\<open>np.minimum(xs, ys)\<close> on one-dimensional arrays, with NumPy's broadcasting: equal
  lengths pair up, an array of length 1 is stretched, anything else raises.
\<close>

definition np_minimum :: "u64 list \<Rightarrow> u64 list \<Rightarrow> error + u64 list" where
  "np_minimum xs ys =
     (if length xs = length ys then Inr (map2 min xs ys)
      else if length xs = 1 then Inr (map (min (hd xs)) ys)
      else if length ys = 1 then Inr (map (\<lambda>x. min x (hd ys)) xs)
      else Inl BroadcastError)"

subsection \<open>The seeded random source\<close>

text \<open>
  \<^verbatim>\<open>np.random.RandomState\<close> belongs to NumPy, not to this module: it is a parameter. \<open>'r\<close>
  is the state of the generator, \<open>RandomState\<close> seeds it, and each draw returns a value
  and the next state.
\<close>

record 'r random_source =
  RandomState :: "int \<Rightarrow> 'r"
  randint :: "int \<Rightarrow> int \<Rightarrow> 'r \<Rightarrow> u64 \<times> 'r"
  standard_normal :: "'r \<Rightarrow> real \<times> 'r"

subsection \<open>BaseHashGenerator\<close>

record 'r BaseHashGenerator =
  hash_size :: nat
  seed :: int
  generator :: 'r

definition BaseHashGenerator_init ::
  "'r random_source \<Rightarrow> nat \<Rightarrow> int \<Rightarrow> 'r BaseHashGenerator" where
  "BaseHashGenerator_init rs hs sd =
     \<lparr>hash_size = hs, seed = sd, generator = RandomState rs sd\<rparr>"

text \<open>
  \<^verbatim>\<open>similarity_score\<close> divides two \<^verbatim>\<open>np.float16\<close> values. The counts it divides are
  not negative, so a floating-point value here is a non-negative rational, infinity or
  NaN. A binary format with \<open>p\<close> significant bits, least subnormal \<open>2 ^ -b\<close> and \<open>levels\<close>
  different spacings rounds a rational \<open>q\<close> to the nearest multiple of the spacing
  \<open>2 ^ j / 2 ^ b\<close> of its binade, ties to the even multiple, and to infinity when the
  result passes the largest finite value. Half precision is \<open>p = 11\<close>, \<open>b = 24\<close>, 30
  spacings (largest finite value 65504); single precision is \<open>p = 24\<close>, \<open>b = 149\<close>, 254
  spacings.
\<close>

datatype float_value = Finite rat | Infinity | NaN

fun ulp_index :: "nat \<Rightarrow> rat \<Rightarrow> nat" where
  "ulp_index 0 x = 0"
| "ulp_index (Suc j) x = (if 2 ^ Suc j \<le> x then Suc j else ulp_index j x)"

definition round_half_even :: "rat \<Rightarrow> int" where
  "round_half_even x =
     (let f = \<lfloor>x\<rfloor>; d = x - of_int f
      in if d < 1 / 2 then f
         else if 1 / 2 < d then f + 1
         else if even f then f else f + 1)"

definition round_float :: "nat \<Rightarrow> nat \<Rightarrow> nat \<Rightarrow> rat \<Rightarrow> float_value" where
  "round_float p b levels q =
     (let j = ulp_index (levels - 1) (q * 2 ^ (b + 1 - p));
          k = round_half_even (q * 2 ^ b / 2 ^ j)
      in if 2 ^ (levels - 1 + p) \<le> k * 2 ^ j then Infinity
         else Finite (of_int k * 2 ^ j / 2 ^ b))"

definition to_half :: "rat \<Rightarrow> float_value" where
  "to_half = round_float 11 24 30"

definition to_single :: "rat \<Rightarrow> float_value" where
  "to_single = round_float 24 149 254"

text \<open>\<^verbatim>\<open>np.float16(n)\<close> of a Python integer that is not negative.\<close>

definition np_float16 :: "nat \<Rightarrow> float_value" where
  "np_float16 n = to_half (of_nat n)"

text \<open>
  The quotient of two \<^verbatim>\<open>np.float16\<close> scalars: NumPy divides them in single precision
  and rounds the result to half precision. Dividing by zero warns and does not raise:
  the result is infinity, and NaN for \<open>0 / 0\<close>; infinity by infinity is NaN as well.
\<close>

fun float16_divide :: "float_value \<Rightarrow> float_value \<Rightarrow> float_value" where
  "float16_divide (Finite a) (Finite b) =
     (if b = 0 then (if a = 0 then NaN else Infinity)
      else (case to_single (a / b) of Finite q \<Rightarrow> to_half q | x \<Rightarrow> x))"
| "float16_divide (Finite a) Infinity = Finite 0"
| "float16_divide Infinity (Finite b) = Infinity"
| "float16_divide Infinity Infinity = NaN"
| "float16_divide NaN y = NaN"
| "float16_divide x NaN = NaN"

text \<open>\<^verbatim>\<open>np.count_nonzero(left == right)\<close> on arrays of equal length.\<close>

definition count_nonzero_eq :: "'a list \<Rightarrow> 'a list \<Rightarrow> nat" where
  "count_nonzero_eq left right = length (filter (\<lambda>(l, r). l = r) (zip left right))"

definition similarity_score :: "'a list \<Rightarrow> 'a list \<Rightarrow> error + float_value" where
  "similarity_score left_hashvalues right_hashvalues =
     (if length left_hashvalues \<noteq> length right_hashvalues then Inl LengthMismatch
      else Inr (float16_divide
                  (np_float16 (count_nonzero_eq left_hashvalues right_hashvalues))
                  (np_float16 (length left_hashvalues))))"

subsection \<open>MinHashHashGenerator\<close>

record 'r MinHashHashGenerator = "'r BaseHashGenerator" +
  permutations :: "u64 ndarray"

text \<open>
  The constructor draws, for each of the \<open>hash_size\<close> positions, first \<open>a\<close> in
  \<open>[1, MERSENNE_PRIME)\<close> and then \<open>b\<close> in \<open>[0, MERSENNE_PRIME)\<close>. The list of pairs has
  shape \<open>(hash_size, 2)\<close> and is transposed; of an empty list NumPy makes an array of
  shape \<open>(0,)\<close>, which transposition leaves alone.
\<close>

fun draw_permutations :: "'r random_source \<Rightarrow> nat \<Rightarrow> 'r \<Rightarrow> (u64 \<times> u64) list \<times> 'r" where
  "draw_permutations rs 0 g = ([], g)"
| "draw_permutations rs (Suc n) g =
     (let (a, g1) = randint rs 1 MERSENNE_PRIME g;
          (b, g2) = randint rs 0 MERSENNE_PRIME g1;
          (rest, g3) = draw_permutations rs n g2
      in ((a, b) # rest, g3))"

definition transposed_pairs :: "(u64 \<times> u64) list \<Rightarrow> u64 ndarray" where
  "transposed_pairs ps =
     (if ps = [] then \<lparr>shape = [0], data = []\<rparr>
      else \<lparr>shape = [2, length ps], data = map fst ps @ map snd ps\<rparr>)"

definition MinHashHashGenerator_init ::
  "'r random_source \<Rightarrow> nat \<Rightarrow> int \<Rightarrow> 'r MinHashHashGenerator" where
  "MinHashHashGenerator_init rs hs sd =
     (let base = BaseHashGenerator_init rs hs sd;
          (ps, g) = draw_permutations rs hs (generator base)
      in \<lparr>hash_size = hs, seed = sd, generator = g, permutations = transposed_pairs ps\<rparr>)"

text \<open>
  \<^verbatim>\<open>set_hash_permutations\<close> reads \<^verbatim>\<open>shape[0]\<close>, and \<^verbatim>\<open>shape[1]\<close> only when
  \<^verbatim>\<open>shape[0]\<close> is 2 (Python's \<^verbatim>\<open>or\<close>); either read raises \<open>IndexError\<close> when the array
  has too few dimensions. The assignment follows the conversion, so an exception in the
  conversion leaves the permutations alone. The result is the outcome of the call and
  the generator after it.
\<close>

definition MinHashHashGenerator_set_hash_permutations ::
  "'r MinHashHashGenerator \<Rightarrow> int typed_ndarray
     \<Rightarrow> (error + unit) \<times> 'r MinHashHashGenerator" where
  "MinHashHashGenerator_set_hash_permutations self new_permutations =
     (case shape new_permutations of
        [] \<Rightarrow> (Inl IndexError, self)
      | s0 # rest \<Rightarrow>
          if s0 \<noteq> 2 then (Inl InvalidShape, self)
          else (case rest of
                  [] \<Rightarrow> (Inl IndexError, self)
                | s1 # _ \<Rightarrow>
                    if s1 \<noteq> hash_size self then (Inl InvalidShape, self)
                    else (case np_array_uint64 new_permutations of
                            Inl e \<Rightarrow> (Inl e, self)
                          | Inr p \<Rightarrow> (Inr (), self\<lparr>permutations := p\<rparr>))))"

text \<open>
  \<^verbatim>\<open>perm_left, perm_right = self._permutations\<close>: iterating an array yields its
  sub-arrays along the first axis, and there must be exactly two. For an array of shape
  \<open>(2, n)\<close> they are its two rows.
\<close>

definition unpack_permutations :: "u64 ndarray \<Rightarrow> error + (u64 ndarray \<times> u64 ndarray)" where
  "unpack_permutations p =
     (case shape p of
        [] \<Rightarrow> Inl NotIterable
      | s0 # rest \<Rightarrow>
          if s0 \<noteq> 2 then Inl UnpackError
          else Inr (\<lparr>shape = rest, data = take (prod_list rest) (data p)\<rparr>,
                    \<lparr>shape = rest,
                     data = take (prod_list rest) (drop (prod_list rest) (data p))\<rparr>))"

text \<open>
  One token: \<open>encoded\<close> is its unsigned 32-bit hash, and every operation is NumPy's on
  \<^verbatim>\<open>uint64\<close>, so product and sum are taken modulo \<open>2 ^ 64\<close> before the remainder.
\<close>

definition permuted :: "u64 list \<Rightarrow> u64 list \<Rightarrow> u32 \<Rightarrow> u64 list" where
  "permuted perm_left perm_right encoded =
     map2 (\<lambda>a b. ((a * ucast encoded + b) mod word_of_int MERSENNE_PRIME)
                    AND word_of_int MAX_HASH)
          perm_left perm_right"

text \<open>The body of the loop, for one-dimensional \<open>perm_left\<close> and \<open>perm_right\<close>.\<close>

definition hash_step :: "u64 ndarray \<Rightarrow> u64 ndarray \<Rightarrow> u32 \<Rightarrow> u64 list \<Rightarrow> error + u64 list" where
  "hash_step perm_left perm_right encoded hashvalues =
     (if length (shape perm_left) = 1
      then np_minimum (permuted (data perm_left) (data perm_right) encoded) hashvalues
      else Inl UnsupportedRank)"

text \<open>
  The loop over the tokens. \<open>mmh3_hash\<close> stands for
  \<^verbatim>\<open>mmh3.hash(str(value).encode("utf-8", errors="ignore"), signed=False)\<close>: the library is
  not part of the module and is a parameter.
\<close>

fun hash_loop ::
  "('a \<Rightarrow> u32) \<Rightarrow> u64 ndarray \<Rightarrow> u64 ndarray \<Rightarrow> 'a list \<Rightarrow> u64 list
     \<Rightarrow> error + u64 list" where
  "hash_loop mmh3_hash perm_left perm_right [] hashvalues = Inr hashvalues"
| "hash_loop mmh3_hash perm_left perm_right (v # vs) hashvalues =
     (case hash_step perm_left perm_right (mmh3_hash v) hashvalues of
        Inl e \<Rightarrow> Inl e
      | Inr hashvalues' \<Rightarrow> hash_loop mmh3_hash perm_left perm_right vs hashvalues')"

definition MinHashHashGenerator_hash ::
  "('a \<Rightarrow> u32) \<Rightarrow> 'r MinHashHashGenerator \<Rightarrow> 'a list \<Rightarrow> u64 list option
     \<Rightarrow> error + u64 list" where
  "MinHashHashGenerator_hash mmh3_hash self vals hashvalues =
     (let hv = (case hashvalues of
                  None \<Rightarrow> replicate (hash_size self) (word_of_int MAX_HASH)
                | Some h \<Rightarrow> h)
      in case unpack_permutations (permutations self) of
           Inl e \<Rightarrow> Inl e
         | Inr (perm_left, perm_right) \<Rightarrow> hash_loop mmh3_hash perm_left perm_right vals hv)"

text \<open>
  \<^verbatim>\<open>hash(B, hash(A))\<close>: Python evaluates the inner call first, and an exception there is
  the exception of the whole expression.
\<close>

definition hash_onto ::
  "('a \<Rightarrow> u32) \<Rightarrow> 'r MinHashHashGenerator \<Rightarrow> 'a list \<Rightarrow> error + u64 list
     \<Rightarrow> error + u64 list" where
  "hash_onto mmh3_hash self vals previous =
     (case previous of
        Inl e \<Rightarrow> Inl e
      | Inr hv \<Rightarrow> MinHashHashGenerator_hash mmh3_hash self vals (Some hv))"

subsection \<open>RandomProjectionsHashGenerator\<close>

text \<open>
  Floating-point numbers are \<open>real\<close>: what is proved below about this generator uses
  the shapes of the arrays and the flow of control, never a property of rounding.

  A SciPy sparse matrix is two-dimensional. Its CSR form is kept row by row: for each
  row the stored entries, each a column index and a value.
\<close>

record csr =
  csr_nrows :: nat
  csr_ncols :: nat
  csr_rows :: "(nat \<times> real) list list"

datatype vector = Dense "real list" | Sparse csr

record 'r RandomProjectionsHashGenerator = "'r BaseHashGenerator" +
  dimension :: nat
  normals :: "real list list"
  normals_csr :: "csr option"

text \<open>\<^verbatim>\<open>randn(hash_size, dimension)\<close> fills the matrix row by row from the source.\<close>

fun draw_row :: "'r random_source \<Rightarrow> nat \<Rightarrow> 'r \<Rightarrow> real list \<times> 'r" where
  "draw_row rs 0 g = ([], g)"
| "draw_row rs (Suc n) g =
     (let (x, g1) = standard_normal rs g;
          (xs, g2) = draw_row rs n g1
      in (x # xs, g2))"

fun randn :: "'r random_source \<Rightarrow> nat \<Rightarrow> nat \<Rightarrow> 'r \<Rightarrow> real list list \<times> 'r" where
  "randn rs 0 d g = ([], g)"
| "randn rs (Suc n) d g =
     (let (row, g1) = draw_row rs d g;
          (rows, g2) = randn rs n d g1
      in (row # rows, g2))"

definition RandomProjectionsHashGenerator_init ::
  "'r random_source \<Rightarrow> nat \<Rightarrow> int \<Rightarrow> nat \<Rightarrow> 'r RandomProjectionsHashGenerator" where
  "RandomProjectionsHashGenerator_init rs hs sd dm =
     (let base = BaseHashGenerator_init rs hs sd;
          (ns, g) = randn rs hs dm (generator base)
      in \<lparr>hash_size = hs, seed = sd, generator = g,
          dimension = dm, normals = ns, normals_csr = None\<rparr>)"

text \<open>The body of \<^verbatim>\<open>set_hash_permutations\<close> is \<^verbatim>\<open>pass\<close>, whatever the argument.\<close>

definition RandomProjectionsHashGenerator_set_hash_permutations ::
  "'r RandomProjectionsHashGenerator \<Rightarrow> 'b
     \<Rightarrow> (error + unit) \<times> 'r RandomProjectionsHashGenerator" where
  "RandomProjectionsHashGenerator_set_hash_permutations self new_permutations =
     (Inr (), self)"

text \<open>\<^verbatim>\<open>csr_matrix(M)\<close> of a dense matrix with \<open>ncols\<close> columns stores its non-zero entries.\<close>

definition csr_matrix :: "nat \<Rightarrow> real list list \<Rightarrow> csr" where
  "csr_matrix ncols M =
     \<lparr>csr_nrows = length M, csr_ncols = ncols,
      csr_rows = map (\<lambda>row. filter (\<lambda>(j, x). x \<noteq> 0) (zip [0..<length row] row)) M\<rparr>"

text \<open>The value of a sparse matrix at a position: the stored entries there, summed.\<close>

definition csr_get :: "csr \<Rightarrow> nat \<Rightarrow> nat \<Rightarrow> real" where
  "csr_get B k j =
     (if k < length (csr_rows B)
      then sum_list (map snd (filter (\<lambda>(c, x). c = j) (csr_rows B ! k)))
      else 0)"

text \<open>
  \<^verbatim>\<open>A.dot(B)\<close> of two sparse matrices: SciPy raises when the inner dimensions differ.
  Each row of the product is given with an entry for every column.
\<close>

definition csr_dot :: "csr \<Rightarrow> csr \<Rightarrow> error + csr" where
  "csr_dot A B =
     (if csr_ncols A \<noteq> csr_nrows B then Inl DimensionMismatch
      else Inr \<lparr>csr_nrows = csr_nrows A, csr_ncols = csr_ncols B,
                csr_rows = map (\<lambda>row. map (\<lambda>j. (j, sum_list (map (\<lambda>(k, a). a * csr_get B k j) row)))
                                          [0..<csr_ncols B])
                               (csr_rows A)\<rparr>)"

text \<open>
  \<^verbatim>\<open>np.dot(normals, values)\<close> of the dense matrix with \<open>ncols\<close> columns and a
  one-dimensional array: NumPy raises when the lengths differ.
\<close>

definition np_dot :: "nat \<Rightarrow> real list list \<Rightarrow> real list \<Rightarrow> error + real list" where
  "np_dot ncols M v =
     (if length v \<noteq> ncols then Inl DimensionMismatch
      else Inr (map (\<lambda>row. sum_list (map2 (*) row v)) M))"

text \<open>
  \<^verbatim>\<open>[1 if x > 0 else 0 for x in projection]\<close>. Over a sparse product \<open>x\<close> is one row, a
  matrix of shape \<open>(1, ncols)\<close>; \<open>x > 0\<close> keeps the entries that are positive, and its
  truth value is defined for shape \<open>(1, 1)\<close> only, where it says whether an entry was
  kept.
\<close>

definition dense_signature :: "real list \<Rightarrow> u64 list" where
  "dense_signature projection = map (\<lambda>x. if x > 0 then 1 else 0) projection"

definition sparse_signature :: "csr \<Rightarrow> error + u64 list" where
  "sparse_signature projection =
     (if csr_rows projection = [] then Inr []
      else if csr_ncols projection \<noteq> 1 then Inl AmbiguousTruth
      else Inr (map (\<lambda>row. if list_ex (\<lambda>(j, x). x > 0) row then 1 else 0)
                    (csr_rows projection)))"

text \<open>
  \<^verbatim>\<open>hash\<close> ignores \<^verbatim>\<open>hashvalues\<close>. A sparse argument fills the cache
  \<^verbatim>\<open>_normals_csr\<close> on first use, so the generator after the call is part of the result.
\<close>

definition RandomProjectionsHashGenerator_hash ::
  "'r RandomProjectionsHashGenerator \<Rightarrow> vector \<Rightarrow> u64 list option
     \<Rightarrow> (error + u64 list) \<times> 'r RandomProjectionsHashGenerator" where
  "RandomProjectionsHashGenerator_hash self vals hashvalues =
     (case vals of
        Sparse v \<Rightarrow>
          (let cached = (case normals_csr self of
                           None \<Rightarrow> csr_matrix (dimension self) (normals self)
                         | Some c \<Rightarrow> c);
               self' = self\<lparr>normals_csr := Some cached\<rparr>
           in case csr_dot cached v of
                Inl e \<Rightarrow> (Inl e, self')
              | Inr projection \<Rightarrow> (sparse_signature projection, self'))
      | Dense v \<Rightarrow>
          (case np_dot (dimension self) (normals self) v of
             Inl e \<Rightarrow> (Inl e, self)
           | Inr projection \<Rightarrow> (Inr (dense_signature projection), self)))"

text \<open>The generator after a sequence of \<^verbatim>\<open>hash\<close> calls.\<close>

fun after_hashes ::
  "'r RandomProjectionsHashGenerator \<Rightarrow> vector list \<Rightarrow> 'r RandomProjectionsHashGenerator" where
  "after_hashes self [] = self"
| "after_hashes self (v # vs) =
     after_hashes (snd (RandomProjectionsHashGenerator_hash self v None)) vs"

subsection \<open>Auxiliary notions for the statements\<close>

text \<open>
  The invariant of the permutations of a MinHash generator: an array of shape
  \<open>(2, hash_size)\<close> holding that many elements.
\<close>

definition valid_permutations :: "'r MinHashHashGenerator \<Rightarrow> bool" where
  "valid_permutations self \<longleftrightarrow>
     shape (permutations self) = [2, hash_size self] \<and>
     length (data (permutations self)) = 2 * hash_size self"

text \<open>The coefficients \<open>a\<^sub>i\<close> and \<open>b\<^sub>i\<close> of position \<open>i\<close>: rows 0 and 1 of the array.\<close>

definition perm_a :: "'r MinHashHashGenerator \<Rightarrow> nat \<Rightarrow> u64" where
  "perm_a self i = data (permutations self) ! i"

definition perm_b :: "'r MinHashHashGenerator \<Rightarrow> nat \<Rightarrow> u64" where
  "perm_b self i = data (permutations self) ! (hash_size self + i)"

text \<open>
  The permuted value as the specification words it, on unbounded integers:
  \<open>((a * h + b) mod MERSENNE_PRIME) AND MAX_HASH\<close>.
\<close>

definition spec_permuted :: "int \<Rightarrow> int \<Rightarrow> int \<Rightarrow> int" where
  "spec_permuted a b h = ((a * h + b) mod MERSENNE_PRIME) AND MAX_HASH"

text \<open>
  A generator with one position, \<open>a\<^sub>0 = 2 ^ 60\<close> and \<open>b\<^sub>0 = 0\<close>, both inside the ranges the
  constructor draws from, and a token hash function taking at \<^verbatim>\<open>foo\<close> the value that
  the documentation of \<^verbatim>\<open>mmh3\<close> gives for \<^verbatim>\<open>mmh3.hash("foo", signed=False)\<close>.
\<close>

definition example_generator :: "unit MinHashHashGenerator" where
  "example_generator =
     \<lparr>hash_size = 1, seed = 12345, generator = (),
      permutations = \<lparr>shape = [2, 1], data = [2 ^ 60, 0]\<rparr>\<rparr>"

definition example_mmh3 :: "string \<Rightarrow> u32" where
  "example_mmh3 s = (if s = ''foo'' then 4138058784 else 0)"

text \<open>
  The starting signature handed to the MinHash \<^verbatim>\<open>hash\<close>: none, or one of \<open>hash_size\<close>
  entries.
\<close>

definition valid_hashvalues :: "'r MinHashHashGenerator \<Rightarrow> u64 list option \<Rightarrow> bool" where
  "valid_hashvalues self hashvalues \<longleftrightarrow>
     (case hashvalues of None \<Rightarrow> True | Some h \<Rightarrow> length h = hash_size self)"

text \<open>
  The invariant of a random-projection generator: the basis has \<open>hash_size\<close> rows of
  \<open>dimension\<close> entries, and the cache is empty or holds the sparse form of the basis.
\<close>

definition valid_cache :: "'r RandomProjectionsHashGenerator \<Rightarrow> bool" where
  "valid_cache self \<longleftrightarrow>
     normals_csr self = None \<or>
     normals_csr self = Some (csr_matrix (dimension self) (normals self))"

definition valid_basis :: "'r RandomProjectionsHashGenerator \<Rightarrow> bool" where
  "valid_basis self \<longleftrightarrow>
     length (normals self) = hash_size self \<and>
     list_all (\<lambda>row. length row = dimension self) (normals self) \<and>
     valid_cache self"

text \<open>
  A toy random source for the examples: the state is a counter, integers count upwards
  inside the requested range, normal draws alternate between 1 and -1.
\<close>

definition example_source :: "nat random_source" where
  "example_source =
     \<lparr>RandomState = (\<lambda>sd. nat \<bar>sd\<bar>),
      randint = (\<lambda>lo hi g. (word_of_int (lo + int g mod (hi - lo)), Suc g)),
      standard_normal = (\<lambda>g. (if even g then 1 else - 1, Suc g))\<rparr>"

text \<open>A random-projection generator with two hyperplanes in dimension 3.\<close>

definition example_projections :: "nat RandomProjectionsHashGenerator" where
  "example_projections =
     \<lparr>hash_size = 2, seed = 12345, generator = 0, dimension = 3,
      normals = [[1, - 1, 1], [- 1, 1, - 1]], normals_csr = None\<rparr>"




section \<open>Properties\<close>

subsection \<open>similarity_score\<close>

lemma count_nonzero_eq_card:
  "length l = length r \<Longrightarrow> count_nonzero_eq l r = card {i. i < length l \<and> l ! i = r ! i}"
  unfolding count_nonzero_eq_def length_filter_conv_card
  by (rule arg_cong [where f = card]) auto

lemma count_nonzero_eq_le: "count_nonzero_eq l r \<le> length l"
  unfolding count_nonzero_eq_def
  by (rule order_trans [OF length_filter_le]) simp

lemma count_nonzero_eq_replicate: "count_nonzero_eq (replicate n x) (replicate n x) = n"
  by (induction n) (simp_all add: count_nonzero_eq_def)

lemma similarity_score_raises:
  "(similarity_score l r = Inl LengthMismatch \<longleftrightarrow> length l \<noteq> length r) \<and>
   ((\<exists>e. similarity_score l r = Inl e) \<longleftrightarrow> length l \<noteq> length r)"
  by (simp add: similarity_score_def)

lemma similarity_score_returns:
  "length l = length r \<Longrightarrow>
   similarity_score l r
     = Inr (float16_divide (np_float16 (card {i. i < length l \<and> l ! i = r ! i}))
                           (np_float16 (length l)))"
  by (simp add: similarity_score_def count_nonzero_eq_card)

text \<open>Half precision has 11 significant bits: 2049 is not a half-precision number.\<close>

lemma np_float16_examples:
  "np_float16 0 = Finite 0"
  "np_float16 2048 = Finite 2048"
  "np_float16 2049 = Finite 2048"
  "np_float16 65519 = Finite 65504"
  "np_float16 65520 = Infinity"
  by (simp add: np_float16_def, code_simp)+

lemma ulp_index_eq:
  "j \<le> n \<Longrightarrow> 2 ^ j \<le> x \<Longrightarrow> x < 2 ^ Suc j \<Longrightarrow> ulp_index n x = j"
proof (induction n)
  case 0
  then show ?case by simp
next
  case (Suc n)
  show ?case
  proof (cases "2 ^ Suc n \<le> x")
    case True
    then have lt: "(2 :: rat) ^ Suc n < 2 ^ Suc j"
      using Suc.prems(3) by (rule le_less_trans)
    have "Suc n < Suc j"
      by (rule power_less_imp_less_exp [of "2 :: rat"]) (simp, rule lt)
    then have "n < j" by simp
    then have "j = Suc n" using Suc.prems(1) by simp
    then show ?thesis using True by simp
  next
    case False
    then have "j \<noteq> Suc n" using Suc.prems(2) by auto
    then have "j \<le> n" using Suc.prems(1) by simp
    then show ?thesis using False Suc.IH Suc.prems(2,3) by simp
  qed
qed

lemma round_half_even_of_int: "round_half_even (of_int k) = k"
  by (simp add: round_half_even_def)

lemma to_single_one: "to_single 1 = Finite 1"
proof -
  have "ulp_index 253 (2 ^ 126) = 126"
    by (rule ulp_index_eq) simp_all
  then have j: "ulp_index 253 85070591730234615865843651857942052864 = 126"
    by simp
  have k: "round_half_even 8388608 = 8388608"
    using round_half_even_of_int [of 8388608] by simp
  show ?thesis
    unfolding to_single_def round_float_def by (simp add: Let_def j k)
qed

lemma to_half_one: "to_half 1 = Finite 1"
proof -
  have "ulp_index 29 (2 ^ 14) = 14"
    by (rule ulp_index_eq) simp_all
  then have j: "ulp_index 29 16384 = 14"
    by simp
  have k: "round_half_even 1024 = 1024"
    using round_half_even_of_int [of 1024] by simp
  show ?thesis
    unfolding to_half_def round_float_def by (simp add: Let_def j k)
qed

text \<open>
  The operands are rounded before they are divided: 2048 agreeing positions of 2049
  score 1.
\<close>

lemma rounded_operands_example:
  "float16_divide (np_float16 2048) (np_float16 2049) = Finite 1"
  by (simp add: np_float16_examples to_single_one to_half_one)

text \<open>
  Claim C2. The claim is right about the error: \<^verbatim>\<open>similarity_score\<close> raises exactly when
  the lengths differ (\<open>similarity_score_raises\<close>), and otherwise divides the number of
  agreeing positions by the length (\<open>similarity_score_returns\<close>). The code misses the
  range that its docstring promises, \<open>[0.0, 1.0]\<close>: two identical signatures of 65520
  entries score \<open>inf / inf\<close>, which is NaN and not 1, since \<^verbatim>\<open>np.float16(65520)\<close> is
  infinite; and two empty signatures score \<open>0 / 0\<close>.
\<close>

theorem similarity_score_not_a_number:
  "similarity_score (replicate 65520 (0 :: u64)) (replicate 65520 0) = Inr NaN \<and>
   similarity_score ([] :: u64 list) [] = Inr NaN"
proof -
  have empty: "count_nonzero_eq ([] :: u64 list) [] = 0"
    by (simp add: count_nonzero_eq_def)
  have len: "length (replicate 65520 (0 :: u64)) = 65520"
    by (rule length_replicate)
  have "similarity_score (replicate 65520 (0 :: u64)) (replicate 65520 0)
      = Inr (float16_divide (np_float16 65520) (np_float16 65520))"
    unfolding similarity_score_def count_nonzero_eq_replicate len by (rule if_not_P) simp
  then have big: "similarity_score (replicate 65520 (0 :: u64)) (replicate 65520 0) = Inr NaN"
    by (simp only: np_float16_examples float16_divide.simps)
  have "similarity_score ([] :: u64 list) []
      = Inr (float16_divide (np_float16 0) (np_float16 0))"
    unfolding similarity_score_def empty by simp
  then have "similarity_score ([] :: u64 list) [] = Inr NaN"
    by (simp only: np_float16_examples float16_divide.simps) simp
  with big show ?thesis by (rule conjI)
qed


subsection \<open>set_hash_permutations of the random-projection generator\<close>

text \<open>
  Claim C9. For every random-projection generator and every argument,
  \<^verbatim>\<open>set_hash_permutations\<close> returns without raising and the generator after the call is
  the generator before it, field by field: basis matrix, cached sparse basis, hash
  size, seed, dimension and random state.
\<close>

theorem rp_set_hash_permutations_noop:
  "RandomProjectionsHashGenerator_set_hash_permutations self new_permutations = (Inr (), self) \<and>
   normals (snd (RandomProjectionsHashGenerator_set_hash_permutations self new_permutations))
     = normals self \<and>
   normals_csr (snd (RandomProjectionsHashGenerator_set_hash_permutations self new_permutations))
     = normals_csr self \<and>
   hash_size (snd (RandomProjectionsHashGenerator_set_hash_permutations self new_permutations))
     = hash_size self \<and>
   seed (snd (RandomProjectionsHashGenerator_set_hash_permutations self new_permutations))
     = seed self \<and>
   dimension (snd (RandomProjectionsHashGenerator_set_hash_permutations self new_permutations))
     = dimension self \<and>
   generator (snd (RandomProjectionsHashGenerator_set_hash_permutations self new_permutations))
     = generator self"
  by (simp add: RandomProjectionsHashGenerator_set_hash_permutations_def)

subsection \<open>The MinHash loop\<close>

lemma unpack_permutations_rows:
  "shape p = [2, n] \<Longrightarrow>
   unpack_permutations p
     = Inr (\<lparr>shape = [n], data = take n (data p)\<rparr>,
            \<lparr>shape = [n], data = take n (drop n (data p))\<rparr>)"
  by (simp add: unpack_permutations_def)

lemma hash_step_rows:
  "shape pl = [n] \<Longrightarrow>
   hash_step pl pr h hv = np_minimum (permuted (data pl) (data pr) h) hv"
  by (simp add: hash_step_def)

lemma length_permuted:
  "length (permuted pl pr h) = min (length pl) (length pr)"
  by (simp add: permuted_def)

lemma hash_loop_append:
  "hash_loop m pl pr (xs @ ys) hv =
     (case hash_loop m pl pr xs hv of Inl e \<Rightarrow> Inl e | Inr h \<Rightarrow> hash_loop m pl pr ys h)"
  by (induction xs arbitrary: hv) (auto split: sum.splits)

lemma np_minimum_same_length:
  "length xs = length ys \<Longrightarrow> np_minimum xs ys = Inr (map2 min xs ys)"
  by (simp add: np_minimum_def)

lemma hash_loop_fold:
  "shape pl = [n] \<Longrightarrow> length (data pl) = length hv \<Longrightarrow> length (data pr) = length hv \<Longrightarrow>
   hash_loop m pl pr vs hv
     = Inr (fold (\<lambda>v acc. map2 min (permuted (data pl) (data pr) (m v)) acc) vs hv)"
proof (induction vs arbitrary: hv)
  case Nil
  then show ?case by simp
next
  case (Cons v vs)
  have len: "length (permuted (data pl) (data pr) (m v)) = length hv"
    using Cons.prems by (simp add: length_permuted)
  have len': "length (map2 min (permuted (data pl) (data pr) (m v)) hv) = length hv"
    using len by simp
  show ?case
    using Cons.IH [of "map2 min (permuted (data pl) (data pr) (m v)) hv"] Cons.prems len len'
    by (simp add: hash_step_rows np_minimum_same_length)
qed

lemma length_fold_step:
  "length pl = length hv \<Longrightarrow> length pr = length hv \<Longrightarrow>
   length (fold (\<lambda>v acc. map2 min (permuted pl pr (m v)) acc) vs hv) = length hv"
  by (induction vs arbitrary: hv) (simp_all add: length_permuted)

lemma map2_min_commute:
  "map2 min (xs :: u64 list) (map2 min ys zs) = map2 min ys (map2 min xs zs)"
proof (induction xs arbitrary: ys zs)
  case Nil
  then show ?case by simp
next
  case (Cons x xs)
  show ?case
  proof (cases ys)
    case Nil
    then show ?thesis by simp
  next
    case ys: (Cons y ys')
    show ?thesis
    proof (cases zs)
      case Nil
      then show ?thesis by simp
    next
      case zs: (Cons z zs')
      show ?thesis using Cons.IH [of ys' zs'] ys zs by (simp add: min.left_commute)
    qed
  qed
qed

lemma fold_step_permute:
  "mset xs = mset ys \<Longrightarrow>
   fold (\<lambda>v acc. map2 min (permuted pl pr (m v)) acc) xs hv
     = fold (\<lambda>v acc. map2 min (permuted pl pr (m v)) acc) ys hv"
proof -
  assume eq: "mset xs = mset ys"
  have "fold (\<lambda>v acc. map2 min (permuted pl pr (m v)) acc) xs
     = fold (\<lambda>v acc. map2 min (permuted pl pr (m v)) acc) ys"
    by (rule fold_multiset_equiv [OF _ eq]) (auto simp: fun_eq_iff map2_min_commute)
  then show ?thesis by simp
qed

lemma valid_permutations_rows:
  assumes "valid_permutations g"
  shows "unpack_permutations (permutations g)
           = Inr (\<lparr>shape = [hash_size g], data = take (hash_size g) (data (permutations g))\<rparr>,
                  \<lparr>shape = [hash_size g],
                   data = take (hash_size g) (drop (hash_size g) (data (permutations g)))\<rparr>)"
    and "length (take (hash_size g) (data (permutations g))) = hash_size g"
    and "length (take (hash_size g) (drop (hash_size g) (data (permutations g)))) = hash_size g"
  using assms by (simp_all add: valid_permutations_def unpack_permutations_rows)

lemma uint_permuted_value:
  fixes a b :: u64 and h :: u32
  shows "uint (((a * ucast h + b) mod word_of_int MERSENNE_PRIME) AND word_of_int MAX_HASH)
       = (((uint a * uint h + uint b) mod 2 ^ 64) mod MERSENNE_PRIME) AND MAX_HASH"
proof -
  have mp: "uint (word_of_int MERSENNE_PRIME :: u64) = MERSENNE_PRIME"
    by (simp add: MERSENNE_PRIME_def)
  have mh: "uint (word_of_int MAX_HASH :: u64) = MAX_HASH"
    by (simp add: MAX_HASH_def)
  have uc: "uint (ucast h :: u64) = uint h"
    by (simp add: uint_up_ucast is_up)
  have ar: "uint (a * ucast h + b) = (uint a * uint h + uint b) mod 2 ^ 64"
    by (simp add: uint_word_ariths uc mod_simps)
  show ?thesis
    by (simp only: uint_and uint_mod mp mh ar)
qed


lemma uint_min_word: "uint (min a b) = min (uint a) (uint (b :: 'a::len word))"
  by (simp add: min_def word_le_def)

lemma hash_valid:
  assumes "valid_permutations g"
    and "length hv = hash_size g"
  shows "MinHashHashGenerator_hash m g vs (Some hv)
       = Inr (fold (\<lambda>v acc. map2 min
                 (permuted (take (hash_size g) (data (permutations g)))
                           (take (hash_size g) (drop (hash_size g) (data (permutations g))))
                           (m v)) acc) vs hv)"
  using valid_permutations_rows [OF assms(1)] assms(2)
  by (simp add: MinHashHashGenerator_hash_def hash_loop_fold)

lemma hash_valid_None:
  assumes "valid_permutations g"
  shows "MinHashHashGenerator_hash m g vs None
       = MinHashHashGenerator_hash m g vs
           (Some (replicate (hash_size g) (word_of_int MAX_HASH)))"
  by (simp add: MinHashHashGenerator_hash_def)

lemma hash_snoc:
  "MinHashHashGenerator_hash m g (vs @ [v]) hv =
     (case MinHashHashGenerator_hash m g vs hv of
        Inl e \<Rightarrow> Inl e
      | Inr cur \<Rightarrow>
          (case unpack_permutations (permutations g) of
             Inl e \<Rightarrow> Inl e
           | Inr (pl, pr) \<Rightarrow> hash_step pl pr (m v) cur))"
  by (auto simp: MinHashHashGenerator_hash_def hash_loop_append Let_def
           split: sum.splits prod.splits)

text \<open>
  Claim C1, as the code has it. When the tokens hashed so far have left the running
  signature \<open>cur\<close>, hashing one more token \<open>v\<close> with 32-bit hash \<open>h\<close> updates position \<open>i\<close>
  to the minimum of \<open>cur[i]\<close> and \<open>(((a\<^sub>i * h + b\<^sub>i) mod 2 ^ 64) mod MERSENNE_PRIME) AND
  MAX_HASH\<close>: product and sum are unsigned 64-bit and wrap around, the remainder by
  \<open>MERSENNE_PRIME\<close> is taken of the wrapped value, and the 32-bit mask comes last.
\<close>

theorem hash_token_update:
  assumes "valid_permutations g"
    and "MinHashHashGenerator_hash mmh3_hash g vs hashvalues = Inr cur"
    and "length cur = hash_size g"
    and "i < hash_size g"
  shows "\<exists>new. MinHashHashGenerator_hash mmh3_hash g (vs @ [v]) hashvalues = Inr new \<and>
           length new = hash_size g \<and>
           uint (new ! i)
             = min (uint (cur ! i))
                   ((((uint (perm_a g i) * uint (mmh3_hash v) + uint (perm_b g i)) mod 2 ^ 64)
                       mod MERSENNE_PRIME) AND MAX_HASH)"
proof -
  let ?pl = "take (hash_size g) (data (permutations g))"
  let ?pr = "take (hash_size g) (drop (hash_size g) (data (permutations g)))"
  let ?p = "permuted ?pl ?pr (mmh3_hash v)"
  note rows = valid_permutations_rows [OF assms(1)]
  have lp: "length ?p = hash_size g"
    using rows(2,3) by (simp add: length_permuted)
  have new: "MinHashHashGenerator_hash mmh3_hash g (vs @ [v]) hashvalues = Inr (map2 min ?p cur)"
    using assms(2,3) rows(1) lp
    by (simp add: hash_snoc hash_step_def np_minimum_same_length)
  have len: "length (data (permutations g)) = 2 * hash_size g"
    using assms(1) by (simp add: valid_permutations_def)
  have a: "?pl ! i = perm_a g i"
    using assms(4) by (simp add: perm_a_def)
  have b: "?pr ! i = perm_b g i"
    using assms(4) len by (simp add: perm_b_def)
  have pi: "?p ! i = ((perm_a g i * ucast (mmh3_hash v) + perm_b g i)
                        mod word_of_int MERSENNE_PRIME) AND word_of_int MAX_HASH"
    using assms(4) rows(2,3) a b unfolding permuted_def by simp
  have "map2 min ?p cur ! i = min (?p ! i) (cur ! i)"
    using assms(3,4) lp by simp
  then have "uint (map2 min ?p cur ! i)
       = min (uint (cur ! i))
             ((((uint (perm_a g i) * uint (mmh3_hash v) + uint (perm_b g i)) mod 2 ^ 64)
                 mod MERSENNE_PRIME) AND MAX_HASH)"
    by (simp only: pi uint_permuted_value uint_min_word min.commute)
  moreover have "length (map2 min ?p cur) = hash_size g"
    using lp assms(3) by simp
  ultimately show ?thesis using new by blast
qed

text \<open>The example generator hashing the single token \<^verbatim>\<open>foo\<close> from scratch.\<close>

theorem hash_token_update_witness:
  "valid_permutations example_generator \<and>
   MinHashHashGenerator_hash example_mmh3 example_generator [''foo''] None = Inr [0]"
  using hash_token_update [of example_generator example_mmh3 "[]" None
      "[word_of_int MAX_HASH]" 0 "''foo''"]
  by (simp add: example_generator_def example_mmh3_def valid_permutations_def
        MinHashHashGenerator_hash_def unpack_permutations_def perm_a_def perm_b_def
        MAX_HASH_def MERSENNE_PRIME_def np_minimum_def permuted_def hash_step_def)

text \<open>
  Claim C1 as stated asks for the remainder of the exact integer \<open>a\<^sub>i * h + b\<^sub>i\<close>. With
  \<open>a\<^sub>0 = 2 ^ 60\<close>, \<open>b\<^sub>0 = 0\<close> and \<open>h = 4138058784\<close> the exact formula gives 2069029392 at
  position 0, while the code, whose product wraps to 0, returns 0.
\<close>

theorem hash_exact_arithmetic_counterexample:
  "MinHashHashGenerator_hash example_mmh3 example_generator [''foo''] None = Inr [0] \<and>
   min MAX_HASH (spec_permuted (uint (perm_a example_generator 0)) (uint (perm_b example_generator 0))
                   (uint (example_mmh3 ''foo''))) = 2069029392"
  by (simp add: example_generator_def example_mmh3_def
        MinHashHashGenerator_hash_def unpack_permutations_def perm_a_def perm_b_def
        MAX_HASH_def MERSENNE_PRIME_def np_minimum_def permuted_def spec_permuted_def
        hash_step_def)

subsection \<open>Incremental hashing and the empty input\<close>

lemma hash_onto_append:
  "hash_onto m g B (MinHashHashGenerator_hash m g A hv)
           = MinHashHashGenerator_hash m g (A @ B) hv"
proof (cases "unpack_permutations (permutations g)")
  case (Inl e)
  then show ?thesis
    by (simp add: hash_onto_def MinHashHashGenerator_hash_def)
next
  case (Inr rows)
  obtain pl pr where rows: "rows = (pl, pr)" by (cases rows)
  show ?thesis
    using Inr rows
    by (simp add: hash_onto_def MinHashHashGenerator_hash_def hash_loop_append
             split: sum.splits)
qed

lemma hash_permuted_tokens:
  assumes "valid_permutations g" and "mset xs = mset ys"
  shows "MinHashHashGenerator_hash m g xs None = MinHashHashGenerator_hash m g ys None"
proof -
  have "MinHashHashGenerator_hash m g xs (Some (replicate (hash_size g) (word_of_int MAX_HASH)))
      = MinHashHashGenerator_hash m g ys (Some (replicate (hash_size g) (word_of_int MAX_HASH)))"
    by (simp only: hash_valid [OF assms(1)] length_replicate fold_step_permute [OF assms(2)])
  then show ?thesis
    by (simp only: hash_valid_None [OF assms(1)])
qed

lemma example_valid: "valid_permutations example_generator"
  by (simp add: example_generator_def valid_permutations_def)

lemma example_rows:
  "unpack_permutations (permutations example_generator)
     = Inr (\<lparr>shape = [1], data = [1152921504606846976]\<rparr>, \<lparr>shape = [1], data = [0]\<rparr>)"
  by (simp add: example_generator_def unpack_permutations_def)

lemma example_hash_size: "hash_size example_generator = 1"
  by (simp add: example_generator_def)

lemma example_foo: "permuted [1152921504606846976] [0] (example_mmh3 ''foo'') = [0]"
  by (simp add: example_mmh3_def permuted_def MERSENNE_PRIME_def MAX_HASH_def)

lemma example_bar: "permuted [1152921504606846976] [0] (example_mmh3 ''bar'') = [0]"
  by (simp add: example_mmh3_def permuted_def MERSENNE_PRIME_def MAX_HASH_def)

text \<open>
  Claim C4. For a MinHash generator whose permutations have shape \<open>(2, hash_size)\<close> and all
  token sequences \<open>A\<close> and \<open>B\<close>, hashing \<open>B\<close> on top of the result of hashing \<open>A\<close> is
  hashing \<open>A @ B\<close> in one call, from any starting signature; hashing from scratch does
  not depend on the order of the tokens; so \<^verbatim>\<open>hash(['a'], hash(['b']))\<close> is
  \<^verbatim>\<open>hash(['a', 'b'])\<close>.
\<close>

theorem hash_incremental:
  assumes "valid_permutations g"
  shows "hash_onto m g B (MinHashHashGenerator_hash m g A hv)
           = MinHashHashGenerator_hash m g (A @ B) hv \<and>
         MinHashHashGenerator_hash m g (A @ B) None
           = MinHashHashGenerator_hash m g (B @ A) None \<and>
         hash_onto m g [a] (MinHashHashGenerator_hash m g [b] None)
           = MinHashHashGenerator_hash m g [a, b] None"
proof -
  have "hash_onto m g [a] (MinHashHashGenerator_hash m g [b] None)
           = MinHashHashGenerator_hash m g ([b] @ [a]) None"
    by (rule hash_onto_append)
  also have "\<dots> = MinHashHashGenerator_hash m g [a, b] None"
    by (rule hash_permuted_tokens [OF assms]) simp
  finally have ab: "hash_onto m g [a] (MinHashHashGenerator_hash m g [b] None)
           = MinHashHashGenerator_hash m g [a, b] None" .
  have sw: "MinHashHashGenerator_hash m g (A @ B) None
           = MinHashHashGenerator_hash m g (B @ A) None"
    by (rule hash_permuted_tokens [OF assms]) simp
  from hash_onto_append [of m g B A hv] sw ab show ?thesis by blast
qed


theorem hash_incremental_witness:
  "valid_permutations example_generator \<and>
   hash_onto example_mmh3 example_generator [''foo'']
       (MinHashHashGenerator_hash example_mmh3 example_generator [''bar''] None)
     = MinHashHashGenerator_hash example_mmh3 example_generator [''foo'', ''bar''] None \<and>
   MinHashHashGenerator_hash example_mmh3 example_generator [''foo'', ''bar''] None = Inr [0]"
proof -
  have "MinHashHashGenerator_hash example_mmh3 example_generator [''foo'', ''bar''] None = Inr [0]"
    by (simp add: MinHashHashGenerator_hash_def example_rows example_foo example_bar
          np_minimum_def hash_step_def Let_def example_hash_size)
  then show ?thesis
    using hash_incremental [OF example_valid, of example_mmh3 "[''foo'']" "[''bar'']" None
          "''foo''" "''bar''"] example_valid
    by simp
qed

text \<open>
  Claim C5. For a MinHash generator whose permutations unpack into two parts (the first
  axis has length 2, as for every shape \<open>(2, hash_size)\<close>), hashing no token returns the
  existing signature when one is given, and otherwise \<open>hash_size\<close> copies of
  \<open>MAX_HASH = 2 ^ 32 - 1\<close>.
\<close>

theorem hash_empty:
  assumes "shape (permutations g) = 2 # rest"
  shows "MinHashHashGenerator_hash m g [] (Some existing_signature) = Inr existing_signature \<and>
         MinHashHashGenerator_hash m g [] None = Inr (replicate (hash_size g) (word_of_int MAX_HASH)) \<and>
         (word_of_int MAX_HASH :: u64) = 2 ^ 32 - 1"
  using assms
  by (simp add: MinHashHashGenerator_hash_def unpack_permutations_def MAX_HASH_def)

theorem hash_empty_witness:
  "shape (permutations example_generator) = [2, 1] \<and>
   MinHashHashGenerator_hash example_mmh3 example_generator [] (Some [7]) = Inr [7] \<and>
   MinHashHashGenerator_hash example_mmh3 example_generator [] None = Inr [4294967295]"
  using hash_empty [of example_generator "[1]" example_mmh3 "[7]"]
  by (simp add: example_generator_def MAX_HASH_def)


subsection \<open>set_hash_permutations of the MinHash generator\<close>

text \<open>
  What the guard does. The module's own error is raised exactly when the first entry of
  the shape is not 2, or there is a second entry and it is not \<open>hash_size\<close>; whenever
  the call raises, the generator is unchanged; and a two-dimensional array of another
  shape than \<open>(2, hash_size)\<close> is always refused with the module's error.
\<close>

lemma set_hash_permutations_invalid_shape:
  "fst (MinHashHashGenerator_set_hash_permutations g a) = Inl InvalidShape \<longleftrightarrow>
     (\<exists>s0 rest. shape a = s0 # rest \<and>
        (s0 \<noteq> 2 \<or> (\<exists>s1 rest'. rest = s1 # rest' \<and> s1 \<noteq> hash_size g)))"
  by (auto simp: MinHashHashGenerator_set_hash_permutations_def np_array_uint64_def
           split: list.splits)

lemma set_hash_permutations_index_error:
  "fst (MinHashHashGenerator_set_hash_permutations g a) = Inl IndexError \<longleftrightarrow>
     shape a = [] \<or> shape a = [2]"
  by (auto simp: MinHashHashGenerator_set_hash_permutations_def np_array_uint64_def
           split: list.splits)

lemma set_hash_permutations_error_unchanged:
  "fst (MinHashHashGenerator_set_hash_permutations g a) = Inl e \<Longrightarrow>
   snd (MinHashHashGenerator_set_hash_permutations g a) = g"
  by (auto simp: MinHashHashGenerator_set_hash_permutations_def np_array_uint64_def
           split: list.splits if_splits)

lemma set_hash_permutations_two_dimensional:
  "shape a = [n, m] \<Longrightarrow> [n, m] \<noteq> [2, hash_size g] \<Longrightarrow>
   MinHashHashGenerator_set_hash_permutations g a = (Inl InvalidShape, g)"
  by (auto simp: MinHashHashGenerator_set_hash_permutations_def)

text \<open>
  Claim C3. The guard is meant to enforce the shape \<open>(2, hash_size)\<close> that the docstring
  and the error message name, and for two-dimensional arguments it does. It misses the
  number of dimensions: an array of shape \<open>(2, hash_size, 3)\<close> is not of shape
  \<open>(2, hash_size)\<close>, yet it passes and replaces the permutations, and an array of shape
  \<open>(2,)\<close> is refused with \<open>IndexError\<close> from \<^verbatim>\<open>shape[1]\<close> and not with the module's error.
\<close>

theorem set_hash_permutations_misses_rank:
  "shape \<lparr>shape = [2, 1, 3], data = [1, 2, 3, 4, 5, 6 :: int], dtype = integer_dtype\<rparr>
     \<noteq> [2, hash_size example_generator] \<and>
   MinHashHashGenerator_set_hash_permutations example_generator
      \<lparr>shape = [2, 1, 3], data = [1, 2, 3, 4, 5, 6], dtype = integer_dtype\<rparr>
     = (Inr (), example_generator
          \<lparr>permutations := \<lparr>shape = [2, 1, 3], data = [1, 2, 3, 4, 5, 6]\<rparr>\<rparr>) \<and>
   shape \<lparr>shape = [2], data = [1, 2 :: int], dtype = integer_dtype\<rparr>
     \<noteq> [2, hash_size example_generator] \<and>
   MinHashHashGenerator_set_hash_permutations example_generator
      \<lparr>shape = [2], data = [1, 2], dtype = integer_dtype\<rparr>
     = (Inl IndexError, example_generator)"
  by (simp add: MinHashHashGenerator_set_hash_permutations_def example_hash_size
        np_array_uint64_def)

text \<open>
  Claim C10, as the code has it. The module tests the shape of the argument and nothing
  else: which of its errors is raised depends on the shape alone. An array of shape
  \<open>(2, hash_size)\<close> whose values NumPy can take over into 64 unsigned bits, that is a
  fixed-width integer array or Python integers from 0 up to \<open>2 ^ 64 - 1\<close>, is accepted
  whatever its values, and they are installed modulo \<open>2 ^ 64\<close>. An array of Python
  integers with a value of \<open>2 ^ 64\<close> or more makes the conversion raise, and the
  permutations stay as they were.
\<close>

theorem set_hash_permutations_values_unchecked:
  "(shape a = [2, hash_size g] \<and> (dtype a = integer_dtype \<or> list_all fits_uint64 (data a)) \<longrightarrow>
      MinHashHashGenerator_set_hash_permutations g a
        = (Inr (), g\<lparr>permutations :=
                       \<lparr>shape = [2, hash_size g], data = map word_of_int (data a)\<rparr>\<rparr>)) \<and>
   (shape a = [2, hash_size g] \<and> dtype a = object_dtype \<and> list_ex (\<lambda>v. 2 ^ 64 \<le> v) (data a) \<longrightarrow>
      MinHashHashGenerator_set_hash_permutations g a = (Inl OverflowError, g)) \<and>
   (shape a = shape b \<longrightarrow>
      (fst (MinHashHashGenerator_set_hash_permutations g a) = Inl InvalidShape \<longleftrightarrow>
       fst (MinHashHashGenerator_set_hash_permutations g b) = Inl InvalidShape) \<and>
      (fst (MinHashHashGenerator_set_hash_permutations g a) = Inl IndexError \<longleftrightarrow>
       fst (MinHashHashGenerator_set_hash_permutations g b) = Inl IndexError))"
proof -
  have ok: "MinHashHashGenerator_set_hash_permutations g a
        = (Inr (), g\<lparr>permutations :=
                       \<lparr>shape = [2, hash_size g], data = map word_of_int (data a)\<rparr>\<rparr>)"
    if "shape a = [2, hash_size g]" "dtype a = integer_dtype \<or> list_all fits_uint64 (data a)"
    using that
    by (auto simp: MinHashHashGenerator_set_hash_permutations_def np_array_uint64_def)
  have over: "MinHashHashGenerator_set_hash_permutations g a = (Inl OverflowError, g)"
    if h: "shape a = [2, hash_size g]" "dtype a = object_dtype"
       "list_ex (\<lambda>v. 2 ^ 64 \<le> v) (data a)"
  proof -
    obtain v where v: "v \<in> set (data a)" "2 ^ 64 \<le> v"
      using h(3) by (auto simp: list_ex_iff)
    then have "\<not> fits_uint64 v"
      by (simp add: fits_uint64_def)
    with v(1) have "\<not> list_all fits_uint64 (data a)"
      by (auto simp: list_all_iff)
    then show ?thesis
      using h(1,2)
      by (simp add: MinHashHashGenerator_set_hash_permutations_def np_array_uint64_def)
  qed
  have same: "(fst (MinHashHashGenerator_set_hash_permutations g a) = Inl InvalidShape \<longleftrightarrow>
       fst (MinHashHashGenerator_set_hash_permutations g b) = Inl InvalidShape) \<and>
      (fst (MinHashHashGenerator_set_hash_permutations g a) = Inl IndexError \<longleftrightarrow>
       fst (MinHashHashGenerator_set_hash_permutations g b) = Inl IndexError)"
    if "shape a = shape b"
    using that
    by (simp only: set_hash_permutations_invalid_shape set_hash_permutations_index_error)
  from ok over same show ?thesis by blast
qed

text \<open>
  Accepted: \<open>a\<^sub>0 = 0\<close> with \<open>b\<^sub>0 = MERSENNE_PRIME\<close>, both outside the ranges of the
  constructor, as a fixed-width array and as Python integers; and a negative 64-bit
  value, which wraps.
\<close>

theorem set_hash_permutations_values_unchecked_witness:
  "MinHashHashGenerator_set_hash_permutations example_generator
      \<lparr>shape = [2, 1], data = [0, MERSENNE_PRIME], dtype = integer_dtype\<rparr>
     = (Inr (), example_generator
          \<lparr>permutations := \<lparr>shape = [2, 1], data = [0, 2305843009213693951]\<rparr>\<rparr>) \<and>
   MinHashHashGenerator_set_hash_permutations example_generator
      \<lparr>shape = [2, 1], data = [0, MERSENNE_PRIME], dtype = object_dtype\<rparr>
     = (Inr (), example_generator
          \<lparr>permutations := \<lparr>shape = [2, 1], data = [0, 2305843009213693951]\<rparr>\<rparr>) \<and>
   MinHashHashGenerator_set_hash_permutations example_generator
      \<lparr>shape = [2, 1], data = [5, - 1], dtype = integer_dtype\<rparr>
     = (Inr (), example_generator
          \<lparr>permutations := \<lparr>shape = [2, 1], data = [5, 18446744073709551615]\<rparr>\<rparr>)"
  using set_hash_permutations_values_unchecked
          [of "\<lparr>shape = [2, 1], data = [0, MERSENNE_PRIME], dtype = integer_dtype\<rparr>"
              example_generator]
        set_hash_permutations_values_unchecked
          [of "\<lparr>shape = [2, 1], data = [0, MERSENNE_PRIME], dtype = object_dtype\<rparr>"
              example_generator]
        set_hash_permutations_values_unchecked
          [of "\<lparr>shape = [2, 1], data = [5, - 1], dtype = integer_dtype\<rparr>" example_generator]
  by (simp add: example_hash_size MERSENNE_PRIME_def fits_uint64_def)

text \<open>
  Claim C10 as stated fails for an array that no unsigned 64-bit array can take over:
  shape \<open>(2, hash_size)\<close>, Python integers, one of them \<open>2 ^ 64 + 5\<close>. The call raises and
  installs nothing.
\<close>

theorem set_hash_permutations_overflow_counterexample:
  "shape \<lparr>shape = [2, 1], data = [2 ^ 64 + 5, 1 :: int], dtype = object_dtype\<rparr>
     = [2, hash_size example_generator] \<and>
   MinHashHashGenerator_set_hash_permutations example_generator
      \<lparr>shape = [2, 1], data = [2 ^ 64 + 5, 1], dtype = object_dtype\<rparr>
     = (Inl OverflowError, example_generator)"
  by (simp add: MinHashHashGenerator_set_hash_permutations_def example_hash_size
        np_array_uint64_def fits_uint64_def)

subsection \<open>The length of signatures\<close>

lemma hash_valid_length:
  assumes "valid_permutations g" and "valid_hashvalues g hv"
  shows "\<exists>sig. MinHashHashGenerator_hash m g vs hv = Inr sig \<and> length sig = hash_size g"
proof (cases hv)
  case None
  show ?thesis
    using valid_permutations_rows(2,3) [OF assms(1)]
    by (simp add: None hash_valid_None [OF assms(1)] hash_valid [OF assms(1)] length_fold_step)
next
  case (Some h)
  then have "length h = hash_size g"
    using assms(2) by (simp add: valid_hashvalues_def)
  then show ?thesis
    using valid_permutations_rows(2,3) [OF assms(1)]
    by (simp add: Some hash_valid [OF assms(1)] length_fold_step)
qed

lemma csr_matrix_simps:
  "csr_nrows (csr_matrix n M) = length M"
  "csr_ncols (csr_matrix n M) = n"
  "length (csr_rows (csr_matrix n M)) = length M"
  by (simp_all add: csr_matrix_def)

lemma cached_basis:
  "valid_cache r \<Longrightarrow>
   (case normals_csr r of None \<Rightarrow> csr_matrix (dimension r) (normals r) | Some c \<Rightarrow> c)
     = csr_matrix (dimension r) (normals r)"
  by (auto simp: valid_cache_def)

lemma length_sparse_signature:
  "sparse_signature p = Inr sig \<Longrightarrow> length sig = length (csr_rows p)"
  by (auto simp: sparse_signature_def split: if_splits)

lemma csr_dot_rows:
  "csr_dot A B = Inr p \<Longrightarrow>
   length (csr_rows p) = length (csr_rows A) \<and> csr_ncols p = csr_ncols B"
  by (auto simp: csr_dot_def split: if_splits)

lemma rp_hash_length:
  assumes "valid_basis r"
    and "RandomProjectionsHashGenerator_hash r v hv = (Inr sig, r')"
  shows "length sig = hash_size r"
proof (cases v)
  case (Dense xs)
  then show ?thesis
    using assms
    by (auto simp: RandomProjectionsHashGenerator_hash_def np_dot_def dense_signature_def
          valid_basis_def split: if_splits)
next
  case (Sparse c)
  have vc: "valid_cache r" and len: "length (normals r) = hash_size r"
    using assms(1) by (simp_all add: valid_basis_def)
  obtain p where p: "csr_dot (csr_matrix (dimension r) (normals r)) c = Inr p"
    and s: "sparse_signature p = Inr sig"
    using assms(2) Sparse cached_basis [OF vc]
    by (auto simp: RandomProjectionsHashGenerator_hash_def Let_def split: sum.splits)
  show ?thesis
    using length_sparse_signature [OF s] csr_dot_rows [OF p] len
    by (simp add: csr_matrix_simps)
qed

lemma rp_hash_dense_returns:
  assumes "length xs = dimension r"
  shows "RandomProjectionsHashGenerator_hash r (Dense xs) hv
       = (Inr (dense_signature (map (\<lambda>row. sum_list (map2 (*) row xs)) (normals r))), r)"
  using assms by (simp add: RandomProjectionsHashGenerator_hash_def np_dot_def)

lemma rp_hash_sparse_returns:
  assumes "valid_basis r" and "csr_nrows c = dimension r" and "csr_ncols c = 1"
  shows "\<exists>sig. fst (RandomProjectionsHashGenerator_hash r (Sparse c) hv) = Inr sig"
proof -
  have vc: "valid_cache r" using assms(1) by (simp add: valid_basis_def)
  obtain p where p: "csr_dot (csr_matrix (dimension r) (normals r)) c = Inr p"
    using assms(2) by (simp add: csr_dot_def csr_matrix_simps)
  have "csr_ncols p = 1" using csr_dot_rows [OF p] assms(3) by simp
  then have "\<exists>sig. sparse_signature p = Inr sig"
    by (simp add: sparse_signature_def)
  then obtain sig where "sparse_signature p = Inr sig" ..
  then show ?thesis
    using p cached_basis [OF vc]
    by (simp add: RandomProjectionsHashGenerator_hash_def Let_def)
qed

text \<open>
  Claim C6. A MinHash generator whose permutations have shape \<open>(2, hash_size)\<close>, started
  from no signature or from one of \<open>hash_size\<close> entries, returns for every finite list of
  tokens a signature of \<open>hash_size\<close> entries. A random-projection generator whose basis
  has \<open>hash_size\<close> rows returns signatures of \<open>hash_size\<close> entries only, and it does return
  one for every dense vector of \<open>dimension\<close> entries and every sparse column of
  \<open>dimension\<close> rows.
\<close>

theorem signature_length:
  "(valid_permutations g \<and> valid_hashvalues g hashvalues \<longrightarrow>
      (\<exists>sig. MinHashHashGenerator_hash mmh3_hash g vs hashvalues = Inr sig \<and>
             length sig = hash_size g)) \<and>
   (valid_basis r \<longrightarrow>
      (\<forall>sig r'. RandomProjectionsHashGenerator_hash r v hv = (Inr sig, r') \<longrightarrow>
                 length sig = hash_size r) \<and>
      (\<forall>xs. v = Dense xs \<and> length xs = dimension r \<longrightarrow>
            (\<exists>sig. fst (RandomProjectionsHashGenerator_hash r v hv) = Inr sig \<and>
                   length sig = hash_size r)) \<and>
      (\<forall>c. v = Sparse c \<and> csr_nrows c = dimension r \<and> csr_ncols c = 1 \<longrightarrow>
            (\<exists>sig. fst (RandomProjectionsHashGenerator_hash r v hv) = Inr sig \<and>
                   length sig = hash_size r)))"
proof -
  have a: "\<exists>sig. MinHashHashGenerator_hash mmh3_hash g vs hashvalues = Inr sig \<and>
             length sig = hash_size g"
    if "valid_permutations g" "valid_hashvalues g hashvalues"
    using that by (rule hash_valid_length)
  have b: "length sig = hash_size r"
    if "valid_basis r" "RandomProjectionsHashGenerator_hash r v hv = (Inr sig, r')" for sig r'
    using that by (rule rp_hash_length)
  have c: "\<exists>sig. fst (RandomProjectionsHashGenerator_hash r v hv) = Inr sig \<and>
                   length sig = hash_size r"
    if vb: "valid_basis r" and v: "v = Dense xs" "length xs = dimension r" for xs
  proof -
    obtain sig where s: "RandomProjectionsHashGenerator_hash r v hv = (Inr sig, r)"
      using rp_hash_dense_returns [OF v(2), of hv] v(1) by simp
    from rp_hash_length [OF vb s] s show ?thesis by simp
  qed
  have d: "\<exists>sig. fst (RandomProjectionsHashGenerator_hash r v hv) = Inr sig \<and>
                   length sig = hash_size r"
    if vb: "valid_basis r" and v: "v = Sparse c" "csr_nrows c = dimension r" "csr_ncols c = 1"
    for c
  proof -
    obtain sig where s: "fst (RandomProjectionsHashGenerator_hash r v hv) = Inr sig"
      using rp_hash_sparse_returns [OF vb v(2,3), of hv] v(1) by auto
    then have "RandomProjectionsHashGenerator_hash r v hv
                 = (Inr sig, snd (RandomProjectionsHashGenerator_hash r v hv))"
      by (metis prod.collapse)
    from rp_hash_length [OF vb this] s show ?thesis by simp
  qed
  from a b c d show ?thesis by blast
qed

lemma example_projections_valid: "valid_basis example_projections"
  by (simp add: example_projections_def valid_basis_def valid_cache_def)

lemma example_dense:
  "RandomProjectionsHashGenerator_hash example_projections (Dense [1, 2, 3]) None
     = (Inr [1, 0], example_projections)"
  by (simp add: RandomProjectionsHashGenerator_hash_def example_projections_def np_dot_def
        dense_signature_def)

theorem signature_length_witness:
  "valid_permutations example_generator \<and> valid_hashvalues example_generator None \<and>
   MinHashHashGenerator_hash example_mmh3 example_generator [''foo''] None = Inr [0] \<and>
   length [0 :: u64] = hash_size example_generator \<and>
   valid_basis example_projections \<and>
   fst (RandomProjectionsHashGenerator_hash example_projections (Dense [1, 2, 3]) None)
     = Inr [1, 0] \<and>
   length [1, 0 :: u64] = hash_size example_projections"
proof -
  have foo: "MinHashHashGenerator_hash example_mmh3 example_generator [''foo''] None = Inr [0]"
    by (simp add: MinHashHashGenerator_hash_def example_rows example_foo
          np_minimum_def hash_step_def Let_def example_hash_size)
  have vh: "valid_hashvalues example_generator None"
    by (simp add: valid_hashvalues_def)
  from signature_length [of example_generator None example_mmh3 "[''foo'']"
         example_projections "Dense [1, 2, 3]" None]
  show ?thesis
    using foo vh example_valid example_projections_valid example_dense
    by (simp add: example_hash_size)
qed

subsection \<open>The constructors establish the invariants\<close>

lemma length_draw_permutations: "length (fst (draw_permutations rs n g)) = n"
proof (induction n arbitrary: g)
  case 0
  then show ?case by simp
next
  case (Suc n)
  obtain a g1 where 1: "randint rs 1 MERSENNE_PRIME g = (a, g1)" by force
  obtain b g2 where 2: "randint rs 0 MERSENNE_PRIME g1 = (b, g2)" by force
  obtain rest g3 where 3: "draw_permutations rs n g2 = (rest, g3)" by force
  have "length rest = n" using Suc [of g2] 3 by simp
  then show ?case using 1 2 3 by simp
qed

lemma MinHashHashGenerator_init_valid:
  assumes "0 < hs"
  shows "valid_permutations (MinHashHashGenerator_init rs hs sd)"
proof -
  obtain ps g where d: "draw_permutations rs hs (RandomState rs sd) = (ps, g)"
    by (cases "draw_permutations rs hs (RandomState rs sd)")
  have "length ps = hs"
    using length_draw_permutations [of rs hs "RandomState rs sd"] d by simp
  then show ?thesis
    using assms d
    by (auto simp: MinHashHashGenerator_init_def BaseHashGenerator_init_def
          valid_permutations_def transposed_pairs_def)
qed

lemma set_hash_permutations_valid:
  assumes "shape a = [2, hash_size g]" and "length (data a) = 2 * hash_size g"
    and "fst (MinHashHashGenerator_set_hash_permutations g a) = Inr ()"
  shows "valid_permutations (snd (MinHashHashGenerator_set_hash_permutations g a))"
  using assms
  by (auto simp: MinHashHashGenerator_set_hash_permutations_def valid_permutations_def
        np_array_uint64_def split: if_splits)

lemma length_draw_row: "length (fst (draw_row rs n g)) = n"
proof (induction n arbitrary: g)
  case 0
  then show ?case by simp
next
  case (Suc n)
  obtain x g1 where 1: "standard_normal rs g = (x, g1)" by force
  obtain xs g2 where 2: "draw_row rs n g1 = (xs, g2)" by force
  have "length xs = n" using Suc [of g1] 2 by simp
  then show ?case using 1 2 by simp
qed

lemma randn_shape:
  "length (fst (randn rs n d g)) = n \<and> list_all (\<lambda>row. length row = d) (fst (randn rs n d g))"
proof (induction n arbitrary: g)
  case 0
  then show ?case by simp
next
  case (Suc n)
  obtain row g1 where r: "draw_row rs d g = (row, g1)" by (cases "draw_row rs d g")
  obtain rows g2 where rs: "randn rs n d g1 = (rows, g2)" by force
  have "length row = d" using length_draw_row [of rs d g] r by simp
  then show ?case
    using Suc [of g1] r rs by simp
qed

lemma RandomProjectionsHashGenerator_init_valid:
  "valid_basis (RandomProjectionsHashGenerator_init rs hs sd dm)"
proof -
  obtain ns g where n: "randn rs hs dm (RandomState rs sd) = (ns, g)" by force
  show ?thesis
    using randn_shape [of rs hs dm "RandomState rs sd"] n
    by (simp add: RandomProjectionsHashGenerator_init_def BaseHashGenerator_init_def
          valid_basis_def valid_cache_def)
qed

subsection \<open>Determinism\<close>

text \<open>
  The random-projection \<^verbatim>\<open>hash\<close> changes nothing in the generator but the cache, and
  the cache never changes the signature.
\<close>

lemma rp_hash_frame:
  "(snd (RandomProjectionsHashGenerator_hash r v hv))\<lparr>normals_csr := None\<rparr>
     = r\<lparr>normals_csr := None\<rparr>"
  by (cases v)
     (simp_all add: RandomProjectionsHashGenerator_hash_def Let_def split: sum.splits)

lemma rp_hash_fields:
  "normals (snd (RandomProjectionsHashGenerator_hash r v hv)) = normals r"
  "dimension (snd (RandomProjectionsHashGenerator_hash r v hv)) = dimension r"
  "hash_size (snd (RandomProjectionsHashGenerator_hash r v hv)) = hash_size r"
  by (cases v; simp add: RandomProjectionsHashGenerator_hash_def Let_def split: sum.splits)+

lemma rp_hash_valid_cache:
  "valid_cache r \<Longrightarrow> valid_cache (snd (RandomProjectionsHashGenerator_hash r v hv))"
  by (cases v)
     (auto simp: RandomProjectionsHashGenerator_hash_def Let_def valid_cache_def
           split: sum.splits)

lemma after_hashes_fields:
  "normals (after_hashes r vs) = normals r \<and>
   dimension (after_hashes r vs) = dimension r \<and>
   hash_size (after_hashes r vs) = hash_size r"
  by (induction vs arbitrary: r) (simp_all add: rp_hash_fields)

lemma after_hashes_valid_cache:
  "valid_cache r \<Longrightarrow> valid_cache (after_hashes r vs)"
  by (induction vs arbitrary: r) (simp_all add: rp_hash_valid_cache)

lemma rp_hash_result:
  assumes "valid_cache r"
  shows "fst (RandomProjectionsHashGenerator_hash r v hv) =
     (case v of
        Dense xs \<Rightarrow>
          (case np_dot (dimension r) (normals r) xs of
             Inl e \<Rightarrow> Inl e | Inr p \<Rightarrow> Inr (dense_signature p))
      | Sparse c \<Rightarrow>
          (case csr_dot (csr_matrix (dimension r) (normals r)) c of
             Inl e \<Rightarrow> Inl e | Inr p \<Rightarrow> sparse_signature p))"
  using cached_basis [OF assms]
  by (cases v)
     (simp_all add: RandomProjectionsHashGenerator_hash_def Let_def split: sum.splits)

lemma init_valid_cache: "valid_cache (RandomProjectionsHashGenerator_init rs hs sd dm)"
  using RandomProjectionsHashGenerator_init_valid [of rs hs sd dm]
  by (simp add: valid_basis_def)

text \<open>
  Claim C7. Two MinHash generators constructed from the same hash size and seed have
  the same permutations and return the same signature for the same tokens. Two
  random-projection generators constructed from the same hash size, seed and dimension
  have the same basis, and return the same signature for the same vector whatever
  each has hashed before and whatever is passed as \<^verbatim>\<open>hashvalues\<close>.
\<close>

theorem two_run_determinism:
  "(g1 = MinHashHashGenerator_init rs hs sd \<and> g2 = MinHashHashGenerator_init rs hs sd \<longrightarrow>
      permutations g1 = permutations g2 \<and>
      MinHashHashGenerator_hash mmh3_hash g1 vs hashvalues
        = MinHashHashGenerator_hash mmh3_hash g2 vs hashvalues) \<and>
   (r1 = after_hashes (RandomProjectionsHashGenerator_init rs hs sd dm) history1 \<and>
    r2 = after_hashes (RandomProjectionsHashGenerator_init rs hs sd dm) history2 \<longrightarrow>
      normals r1 = normals r2 \<and>
      fst (RandomProjectionsHashGenerator_hash r1 v hv1)
        = fst (RandomProjectionsHashGenerator_hash r2 v hv2))"
proof -
  let ?r = "RandomProjectionsHashGenerator_init rs hs sd dm"
  have "fst (RandomProjectionsHashGenerator_hash (after_hashes ?r history1) v hv1)
      = fst (RandomProjectionsHashGenerator_hash (after_hashes ?r history2) v hv2)"
    by (simp only: rp_hash_result [OF after_hashes_valid_cache [OF init_valid_cache]]
          after_hashes_fields)
  moreover have "normals (after_hashes ?r history1) = normals (after_hashes ?r history2)"
    by (simp only: after_hashes_fields)
  ultimately show ?thesis by blast
qed

text \<open>One generator fresh, the other with its cache filled by a sparse vector.\<close>

theorem two_run_determinism_witness:
  "permutations (MinHashHashGenerator_init example_source 1 12345)
     = permutations (MinHashHashGenerator_init example_source 1 12345) \<and>
   fst (RandomProjectionsHashGenerator_hash
          (after_hashes (RandomProjectionsHashGenerator_init example_source 2 12345 3) [])
          (Dense [1, 2, 3]) None)
     = fst (RandomProjectionsHashGenerator_hash
          (after_hashes (RandomProjectionsHashGenerator_init example_source 2 12345 3)
             [Sparse \<lparr>csr_nrows = 3, csr_ncols = 1, csr_rows = [[(0, 1)], [], [(0, 3)]]\<rparr>])
          (Dense [1, 2, 3]) (Some [7]))"
  using two_run_determinism
    [where ?g1.0 = "MinHashHashGenerator_init example_source 1 12345"
       and ?g2.0 = "MinHashHashGenerator_init example_source 1 12345"
       and rs = example_source and hs = 1 and sd = 12345]
    two_run_determinism
    [where ?r1.0 = "after_hashes (RandomProjectionsHashGenerator_init example_source 2 12345 3) []"
       and ?r2.0 = "after_hashes (RandomProjectionsHashGenerator_init example_source 2 12345 3)
             [Sparse \<lparr>csr_nrows = 3, csr_ncols = 1, csr_rows = [[(0, 1)], [], [(0, 3)]]\<rparr>]"
       and rs = example_source and hs = 2 and sd = 12345 and dm = 3
       and ?history1.0 = "[]"
       and ?history2.0 = "[Sparse \<lparr>csr_nrows = 3, csr_ncols = 1, csr_rows = [[(0, 1)], [], [(0, 3)]]\<rparr>]"
       and v = "Dense [1, 2, 3]" and ?hv1.0 = None and ?hv2.0 = "Some [7]"]
  by blast

subsection \<open>Dense and sparse vectors\<close>











text \<open>
  A generator constructed with hash size 0 has permutations of shape \<open>(0,)\<close>, which do
  not unpack: its \<^verbatim>\<open>hash\<close> raises on every input.
\<close>

lemma hash_size_zero_raises:
  "MinHashHashGenerator_hash m (MinHashHashGenerator_init rs 0 sd) vs hv = Inl UnpackError"
  by (simp add: MinHashHashGenerator_hash_def MinHashHashGenerator_init_def
        BaseHashGenerator_init_def transposed_pairs_def unpack_permutations_def)

end
